theory Spec2Isabelle
  imports Main "HOL-Library.Word"
begin

section \<open>JavaScript values, strings and objects\<close>

text \<open>
  A JavaScript string is a sequence of UTF-16 code units. The string literals of the
  source are ASCII, so \<open>str\<close> turns an Isabelle literal into its code units.
\<close>

type_synonym cu = "16 word"
type_synonym jsstring = "cu list"

definition str :: "string \<Rightarrow> jsstring" where
  "str s = map of_char s"

text \<open>
  The values a form field holds: strings and booleans, with \<open>undefined\<close> for a property
  that is not there and \<open>null\<close>. The form state is typed \<open>any\<close> in the source; numbers
  and nested objects are left out of the model.
\<close>

datatype jsval = JUndefined | JNull | JBool bool | JStr jsstring

text \<open>An object is a finite map from property names to values.\<close>

type_synonym object = "jsstring \<rightharpoonup> jsval"

text \<open>Property read \<open>o.k\<close>: a missing property reads as \<open>undefined\<close>.\<close>

definition get :: "object \<Rightarrow> jsstring \<Rightarrow> jsval" where
  "get ob k = (case ob k of None \<Rightarrow> JUndefined | Some v \<Rightarrow> v)"

text \<open>Optional chaining \<open>o?.k\<close> on an object that may be absent.\<close>

definition opt_get :: "object option \<Rightarrow> jsstring \<Rightarrow> jsval" where
  "opt_get ob k = (case ob of None \<Rightarrow> JUndefined | Some f \<Rightarrow> get f k)"

text \<open>ToBoolean, as applied by \<open>&&\<close>, \<open>||\<close>, \<open>!\<close> and \<open>if\<close>.\<close>

fun truthy :: "jsval \<Rightarrow> bool" where
  "truthy JUndefined = False"
| "truthy JNull = False"
| "truthy (JBool b) = b"
| "truthy (JStr s) = (s \<noteq> [])"

subsection \<open>\<open>String.prototype.trim\<close>\<close>

text \<open>
  \<open>trim\<close> strips WhiteSpace and LineTerminator code points from both ends: TAB, LF, VT,
  FF, CR, SPACE, NBSP, the other space separators (category Zs), LS, PS and the BOM.
  All of them are single code units.
\<close>

definition is_whitespace :: "cu \<Rightarrow> bool" where
  "is_whitespace c =
     ((0x0009 \<le> c \<and> c \<le> 0x000D) \<or> c = 0x0020 \<or> c = 0x00A0 \<or> c = 0x1680 \<or>
      (0x2000 \<le> c \<and> c \<le> 0x200A) \<or> c = 0x2028 \<or> c = 0x2029 \<or> c = 0x202F \<or>
      c = 0x205F \<or> c = 0x3000 \<or> c = 0xFEFF)"

definition trim :: "jsstring \<Rightarrow> jsstring" where
  "trim s = rev (dropWhile is_whitespace (rev (dropWhile is_whitespace s)))"

text \<open>
  The method call \<open>v.trim()\<close> on a value of unknown type: only a string has the method;
  on \<open>true\<close> the call raises a TypeError (as does the property read on \<open>undefined\<close> and
  \<open>null\<close>).
\<close>

datatype error = TypeError

fun trim_call :: "jsval \<Rightarrow> error + jsstring" where
  "trim_call (JStr s) = Inr (trim s)"
| "trim_call v = Inl TypeError"

subsection \<open>Regular expressions\<close>

text \<open>
  The fragment of regular expressions the source uses: a literal character, a character
  class given by inclusive ranges, concatenation and the counted repetition \<open>r{n}\<close>.
  \<open>rmatch r s\<close> lists what is left of \<open>s\<close> after each way of matching \<open>r\<close> at its start.
\<close>

datatype regex = Chr cu | Class "(cu \<times> cu) list" | Seq regex regex | Repeat nat regex

fun rmatch :: "regex \<Rightarrow> jsstring \<Rightarrow> jsstring list" where
  "rmatch (Chr c) [] = []"
| "rmatch (Chr c) (x # xs) = (if x = c then [xs] else [])"
| "rmatch (Class rs) [] = []"
| "rmatch (Class rs) (x # xs) =
     (if list_ex (\<lambda>(lo, hi). lo \<le> x \<and> x \<le> hi) rs then [xs] else [])"
| "rmatch (Seq a b) s = concat (map (rmatch b) (rmatch a s))"
| "rmatch (Repeat n r) s = ((\<lambda>ss. concat (map (rmatch r) ss)) ^^ n) [s]"

text \<open>
  \<open>/^r$/.test(s)\<close> without flags: \<open>^\<close> pins the match to the start of the input and \<open>$\<close>
  to its end, so the test succeeds when some match of \<open>r\<close> consumes all of \<open>s\<close>.
\<close>

definition anchored_test :: "regex \<Rightarrow> jsstring \<Rightarrow> bool" where
  "anchored_test r s = ([] \<in> set (rmatch r s))"

text \<open>The pattern \<^verbatim>\<open>/^#[0-9A-Fa-f]{6}$/\<close>.\<close>

definition hex_color_re :: regex where
  "hex_color_re =
     Seq (Chr 0x23) (Repeat 6 (Class [(0x30, 0x39), (0x41, 0x46), (0x61, 0x66)]))"

text \<open>
  The spec's wording of the same pattern, for comparison with the regular expression:
  a \<open>#\<close> followed by exactly 6 hexadecimal digits.
\<close>

definition is_hex_digit :: "cu \<Rightarrow> bool" where
  "is_hex_digit c =
     ((0x30 \<le> c \<and> c \<le> 0x39) \<or> (0x41 \<le> c \<and> c \<le> 0x46) \<or> (0x61 \<le> c \<and> c \<le> 0x66))"

fun hex_color_pattern :: "jsstring \<Rightarrow> bool" where
  "hex_color_pattern [] = False"
| "hex_color_pattern (c # cs) = (c = 0x23 \<and> length cs = 6 \<and> list_all is_hex_digit cs)"

section \<open>The account preferences form\<close>

text \<open>
  The form model is the form engine's object; this module only calls its accessor
  \<open>getValue\<close>, which is taken as given.
\<close>

record form_model =
  getValue :: "jsstring \<Rightarrow> jsval"

text \<open>The optional second argument of a \<open>getData\<close> callback: \<open>{form?, model?}\<close>.\<close>

record transform_context =
  form :: "object option"
  model :: "form_model option"

text \<open>The submission payload \<open>{options: ...}\<close>.\<close>

record payload =
  options :: object

definition transformOptions :: "object \<Rightarrow> payload" where
  "transformOptions data = \<lparr>options = data\<rparr>"

text \<open>\<^verbatim>\<open>context?.form || {}\<close>, the first line of both versions of the transform.\<close>

definition formData_of :: "transform_context option \<Rightarrow> object" where
  "formData_of ctx =
     (case ctx of
        None \<Rightarrow> Map.empty
      | Some c \<Rightarrow> (case form c of None \<Rightarrow> Map.empty | Some f \<Rightarrow> f))"

text \<open>
  \<^verbatim>\<open>Object.fromEntries(Object.entries(data).filter(([key]) => key !== 'customThemeColor'))\<close>:
  a copy of \<open>data\<close> without the property \<open>customThemeColor\<close>.
\<close>

definition without_customThemeColor :: "object \<Rightarrow> object" where
  "without_customThemeColor data =
     (\<lambda>key. if key \<noteq> str ''customThemeColor'' then data key else None)"

text \<open>\<open>transformCustomTheme\<close> of \<^verbatim>\<open>static/app/data/forms/accountPreferences.tsx\<close>.\<close>

definition transformCustomTheme :: "object \<Rightarrow> transform_context option \<Rightarrow> payload" where
  "transformCustomTheme data ctx =
     (let formData = formData_of ctx;
          customTheme = get formData (str ''customTheme'');
          customThemeColor = get formData (str ''customThemeColor'');
          transformedData = without_customThemeColor data
      in \<lparr>options =
            (if customTheme = JStr (str ''custom'') \<and> truthy customThemeColor
             then transformedData(str ''customTheme'' \<mapsto> customThemeColor)
             else if truthy customTheme \<and> customTheme \<noteq> JStr (str ''default'')
             then transformedData(str ''customTheme'' \<mapsto> customTheme)
             else if customTheme = JStr (str ''default'')
             then transformedData(str ''customTheme'' \<mapsto> JStr (str ''default''))
             else transformedData)\<rparr>)"

text \<open>\<open>transformCustomTheme\<close> of the second source file (\<^verbatim>\<open>unnamed/part_000\<close>).\<close>

definition transformCustomTheme_part_000 ::
  "object \<Rightarrow> transform_context option \<Rightarrow> payload" where
  "transformCustomTheme_part_000 data ctx =
     (let formData = formData_of ctx;
          customTheme = get formData (str ''customTheme'');
          customThemeColor = get formData (str ''customThemeColor'');
          transformedData = without_customThemeColor data
      in \<lparr>options =
            (if customTheme = JStr (str ''custom'') \<and> truthy customThemeColor
             then transformedData(str ''customTheme'' \<mapsto> customThemeColor)
             else if truthy customTheme
             then transformedData(str ''customTheme'' \<mapsto> customTheme)
             else transformedData)\<rparr>)"

subsection \<open>The field \<open>customThemeColor\<close>\<close>

text \<open>\<^verbatim>\<open>visible: ({model}) => model?.getValue('customTheme') === 'custom'\<close>\<close>

definition visible :: "form_model option \<Rightarrow> bool" where
  "visible m =
     ((case m of None \<Rightarrow> JUndefined | Some fm \<Rightarrow> getValue fm (str ''customTheme''))
        = JStr (str ''custom''))"

text \<open>The two error pairs \<open>validate\<close> returns.\<close>

definition missing_color_error :: "jsstring \<times> jsstring" where
  "missing_color_error =
     (str ''customThemeColor'', str ''Please provide a hex color when selecting custom theme'')"

definition invalid_color_error :: "jsstring \<times> jsstring" where
  "invalid_color_error =
     (str ''customThemeColor'', str ''Please enter a valid hex color (e.g., #ff5722)'')"

text \<open>
  \<open>validate\<close> of \<^verbatim>\<open>accountPreferences.tsx\<close>. \<open>Inr\<close> carries the returned sequence of
  error pairs, \<open>Inl\<close> an exception raised on the way.
\<close>

definition validate :: "object option \<Rightarrow> error + (jsstring \<times> jsstring) list" where
  "validate frm =
     (let customTheme = opt_get frm (str ''customTheme'');
          customThemeColor = opt_get frm (str ''customThemeColor'')
      in if customTheme = JStr (str ''custom'') then
           (if \<not> truthy customThemeColor then Inr [missing_color_error]
            else case trim_call customThemeColor of
              Inl e \<Rightarrow> Inl e
            | Inr t \<Rightarrow>
                if t = [] then Inr [missing_color_error]
                else (case trim_call customThemeColor of
                        Inl e \<Rightarrow> Inl e
                      | Inr t' \<Rightarrow>
                          if \<not> anchored_test hex_color_re t' then Inr [invalid_color_error]
                          else Inr []))
         else Inr [])"

text \<open>\<open>validate\<close> of the second source file, with its two separate guards.\<close>

definition validate_part_000 :: "object option \<Rightarrow> error + (jsstring \<times> jsstring) list" where
  "validate_part_000 frm =
     (let customTheme = opt_get frm (str ''customTheme'');
          customThemeColor = opt_get frm (str ''customThemeColor'')
      in case (if customTheme = JStr (str ''custom'') then
                 (if \<not> truthy customThemeColor then Inr True
                  else case trim_call customThemeColor of
                    Inl e \<Rightarrow> Inl e
                  | Inr t \<Rightarrow> Inr (t = []))
               else Inr False) of
           Inl e \<Rightarrow> Inl e
         | Inr True \<Rightarrow> Inr [missing_color_error]
         | Inr False \<Rightarrow>
            (case (if customTheme = JStr (str ''custom'') \<and> truthy customThemeColor then
                     (case trim_call customThemeColor of
                        Inl e \<Rightarrow> Inl e
                      | Inr t \<Rightarrow> Inr (\<not> anchored_test hex_color_re t))
                   else Inr False) of
               Inl e \<Rightarrow> Inl e
             | Inr True \<Rightarrow> Inr [invalid_color_error]
             | Inr False \<Rightarrow> Inr []))"

section \<open>Facts about the model\<close>

lemma str_literals_distinct:
  "str ''customTheme'' \<noteq> str ''customThemeColor''"
  "str ''customThemeColor'' \<noteq> str ''customTheme''"
  "str ''custom'' \<noteq> str ''default''"
  "str ''default'' \<noteq> str ''custom''"
  "str ''default'' \<noteq> []"
  "str ''custom'' \<noteq> []"
  by (simp_all add: str_def)

text \<open>\<open>trim\<close> returns the empty string exactly on whitespace-only input.\<close>

lemma dropWhile_ws_Nil: "list_all is_whitespace s \<Longrightarrow> dropWhile is_whitespace s = []"
  by (simp add: list_all_iff)

lemma trim_Nil_iff: "trim s = [] \<longleftrightarrow> list_all is_whitespace s"
proof
  assume "list_all is_whitespace s"
  then show "trim s = []" by (simp add: trim_def dropWhile_ws_Nil)
next
  assume t: "trim s = []"
  show "list_all is_whitespace s"
  proof (rule ccontr)
    assume "\<not> list_all is_whitespace s"
    then have ne: "dropWhile is_whitespace s \<noteq> []"
      by (simp add: list_all_iff dropWhile_eq_Nil_conv)
    then have "\<not> is_whitespace (hd (dropWhile is_whitespace s))"
      by (rule hd_dropWhile)
    moreover have "hd (dropWhile is_whitespace s) \<in> set (rev (dropWhile is_whitespace s))"
      using ne by simp
    ultimately have "dropWhile is_whitespace (rev (dropWhile is_whitespace s)) \<noteq> []"
      by (auto simp: dropWhile_eq_Nil_conv simp del: set_rev)
    with t show False by (simp add: trim_def)
  qed
qed

text \<open>The regular expression accepts exactly the strings of the spec's wording.\<close>

lemma funpow_unroll: "(f ^^ Suc n) x = (f ^^ n) (f x)"
  by (simp add: funpow_swap1)

lemma iterate_Nil: "((\<lambda>ss. concat (map (rmatch r) ss)) ^^ n) [] = []"
  by (induction n) simp_all

lemma iterate_Class:
  "((\<lambda>ss. concat (map (rmatch (Class rs)) ss)) ^^ n) [s] =
     (if n \<le> length s \<and> list_all (\<lambda>x. list_ex (\<lambda>(lo, hi). lo \<le> x \<and> x \<le> hi) rs) (take n s)
      then [drop n s] else [])"
proof (induction n arbitrary: s)
  case 0
  show ?case by simp
next
  case (Suc n)
  show ?case
  proof (cases s)
    case Nil
    then show ?thesis by (subst funpow_unroll) (simp add: iterate_Nil)
  next
    case (Cons x xs)
    then show ?thesis using Suc.IH [of xs]
      by (subst funpow_unroll) (simp add: iterate_Nil)
  qed
qed

lemma hex_color_re_test: "anchored_test hex_color_re s \<longleftrightarrow> hex_color_pattern s"
proof (cases s)
  case Nil
  then show ?thesis by (simp add: anchored_test_def hex_color_re_def)
next
  case (Cons c cs)
  then show ?thesis
    by (auto simp add: anchored_test_def hex_color_re_def iterate_Class is_hex_digit_def [abs_def])
qed

text \<open>Reading the form state of a context.\<close>

lemma get_formData_Some:
  "get (formData_of (Some \<lparr>form = Some f, model = m\<rparr>)) k = get f k"
  by (simp add: formData_of_def)

lemma get_formData_None: "get (formData_of None) k = JUndefined"
  by (simp add: formData_of_def get_def)

lemma get_upd: "get (f(k \<mapsto> v)) k' = (if k' = k then v else get f k')"
  by (simp add: get_def)

section \<open>The transform\<close>

text \<open>
  Claim C1. Whenever the form state has \<open>customTheme = 'custom'\<close> and a non-empty string
  \<open>customThemeColor\<close>, the payload's \<open>customTheme\<close> is that colour string, whatever the
  changed fields are. Both versions of the transform do so.
\<close>

theorem custom_color_replaces_custom:
  assumes "get (formData_of ctx) (str ''customTheme'') = JStr (str ''custom'')"
    and "get (formData_of ctx) (str ''customThemeColor'') = JStr c"
    and "c \<noteq> []"
  shows "options (transformCustomTheme data ctx) (str ''customTheme'') = Some (JStr c) \<and>
         options (transformCustomTheme_part_000 data ctx) (str ''customTheme'') = Some (JStr c)"
  using assms by (simp add: transformCustomTheme_def transformCustomTheme_part_000_def)

theorem custom_color_replaces_custom_witness:
  "options (transformCustomTheme [str ''customThemeColor'' \<mapsto> JStr (str ''#AABBCC'')]
      (Some \<lparr>form = Some [str ''customTheme'' \<mapsto> JStr (str ''custom''),
                           str ''customThemeColor'' \<mapsto> JStr (str ''#AABBCC'')],
             model = None\<rparr>)) (str ''customTheme'') = Some (JStr (str ''#AABBCC'')) \<and>
   options (transformCustomTheme_part_000 [str ''customThemeColor'' \<mapsto> JStr (str ''#AABBCC'')]
      (Some \<lparr>form = Some [str ''customTheme'' \<mapsto> JStr (str ''custom''),
                           str ''customThemeColor'' \<mapsto> JStr (str ''#AABBCC'')],
             model = None\<rparr>)) (str ''customTheme'') = Some (JStr (str ''#AABBCC''))"
proof -
  let ?ctx = "Some \<lparr>form = Some [str ''customTheme'' \<mapsto> JStr (str ''custom''),
                           str ''customThemeColor'' \<mapsto> JStr (str ''#AABBCC'')],
             model = None\<rparr>"
  have h1: "get (formData_of ?ctx) (str ''customTheme'') = JStr (str ''custom'')"
    by (simp add: get_formData_Some get_upd str_literals_distinct)
  have h2: "get (formData_of ?ctx) (str ''customThemeColor'') = JStr (str ''#AABBCC'')"
    by (simp add: get_formData_Some get_upd)
  have h3: "str ''#AABBCC'' \<noteq> []" by (simp add: str_def)
  show ?thesis by (rule custom_color_replaces_custom [OF h1 h2 h3])
qed

text \<open>
  Claim C2, as stated, fails when \<open>customTheme\<close> is unset: with no context and no changed
  fields the payload has no \<open>customTheme\<close> at all, in either version.
\<close>

theorem unset_theme_counterexample:
  "get (formData_of None) (str ''customTheme'') = JUndefined \<and>
   options (transformCustomTheme Map.empty None) (str ''customTheme'')
     \<noteq> Some (JStr (str ''default'')) \<and>
   options (transformCustomTheme_part_000 Map.empty None) (str ''customTheme'')
     \<noteq> Some (JStr (str ''default''))"
  by (simp add: transformCustomTheme_def transformCustomTheme_part_000_def get_formData_None
      without_customThemeColor_def)

text \<open>
  Claim C2, amended. When the form state's \<open>customTheme\<close> is the literal \<open>'default'\<close>, the
  payload's \<open>customTheme\<close> is \<open>'default'\<close>. When it is unset (absent, or any other falsy
  value), the transform does not write \<open>customTheme\<close>: the payload has for it exactly what
  the changed fields had, nothing if they had nothing.
\<close>

theorem default_theme_sent_unset_untouched:
  "(get (formData_of ctx) (str ''customTheme'') = JStr (str ''default'') \<longrightarrow>
      options (transformCustomTheme data ctx) (str ''customTheme'') = Some (JStr (str ''default'')) \<and>
      options (transformCustomTheme_part_000 data ctx) (str ''customTheme'')
        = Some (JStr (str ''default''))) \<and>
   (\<not> truthy (get (formData_of ctx) (str ''customTheme'')) \<longrightarrow>
      options (transformCustomTheme data ctx) (str ''customTheme'') = data (str ''customTheme'') \<and>
      options (transformCustomTheme_part_000 data ctx) (str ''customTheme'')
        = data (str ''customTheme''))"
  by (auto simp add: transformCustomTheme_def transformCustomTheme_part_000_def Let_def
      without_customThemeColor_def str_literals_distinct)

theorem default_theme_sent_unset_untouched_witness:
  "options (transformCustomTheme [str ''customTheme'' \<mapsto> JStr (str ''default'')]
      (Some \<lparr>form = Some [str ''customTheme'' \<mapsto> JStr (str ''default'')], model = None\<rparr>))
      (str ''customTheme'') = Some (JStr (str ''default'')) \<and>
   options (transformCustomTheme_part_000 [str ''customTheme'' \<mapsto> JStr (str ''default'')]
      (Some \<lparr>form = Some [str ''customTheme'' \<mapsto> JStr (str ''default'')], model = None\<rparr>))
      (str ''customTheme'') = Some (JStr (str ''default'')) \<and>
   options (transformCustomTheme [str ''customThemeColor'' \<mapsto> JStr (str ''#AABBCC'')] None)
      (str ''customTheme'') = None \<and>
   options (transformCustomTheme_part_000 [str ''customThemeColor'' \<mapsto> JStr (str ''#AABBCC'')]
      None) (str ''customTheme'') = None"
proof -
  let ?ctx = "Some \<lparr>form = Some [str ''customTheme'' \<mapsto> JStr (str ''default'')], model = None\<rparr>"
  have h1: "get (formData_of ?ctx) (str ''customTheme'') = JStr (str ''default'')"
    by (simp add: get_formData_Some get_upd)
  have h2: "\<not> truthy (get (formData_of None) (str ''customTheme''))"
    by (simp add: get_formData_None)
  have d: "[str ''customThemeColor'' \<mapsto> JStr (str ''#AABBCC'')] (str ''customTheme'') = None"
    by (simp add: str_literals_distinct)
  show ?thesis
    using default_theme_sent_unset_untouched
            [of ?ctx "[str ''customTheme'' \<mapsto> JStr (str ''default'')]"]
          default_theme_sent_unset_untouched
            [of None "[str ''customThemeColor'' \<mapsto> JStr (str ''#AABBCC'')]"]
          h1 h2 d
    by simp
qed

text \<open>
  Claim C3. When the form state's \<open>customTheme\<close> is set (a truthy value), is not
  \<open>'default'\<close>, and is not \<open>'custom'\<close> together with a non-empty \<open>customThemeColor\<close>, the
  payload's \<open>customTheme\<close> is that value unchanged. This covers the preset colours and
  \<open>'custom'\<close> with an empty colour.
\<close>

theorem set_theme_passes_through:
  assumes "get (formData_of ctx) (str ''customTheme'') = v"
    and "truthy v"
    and "v \<noteq> JStr (str ''default'')"
    and "\<not> (v = JStr (str ''custom'') \<and> truthy (get (formData_of ctx) (str ''customThemeColor'')))"
  shows "options (transformCustomTheme data ctx) (str ''customTheme'') = Some v \<and>
         options (transformCustomTheme_part_000 data ctx) (str ''customTheme'') = Some v"
  using assms
  by (auto simp add: transformCustomTheme_def transformCustomTheme_part_000_def Let_def)

theorem set_theme_passes_through_witness:
  "options (transformCustomTheme [str ''customTheme'' \<mapsto> JStr (str ''custom'')]
      (Some \<lparr>form = Some [str ''customTheme'' \<mapsto> JStr (str ''custom''),
                           str ''customThemeColor'' \<mapsto> JStr []],
             model = None\<rparr>)) (str ''customTheme'') = Some (JStr (str ''custom'')) \<and>
   options (transformCustomTheme_part_000 [str ''customTheme'' \<mapsto> JStr (str ''custom'')]
      (Some \<lparr>form = Some [str ''customTheme'' \<mapsto> JStr (str ''custom''),
                           str ''customThemeColor'' \<mapsto> JStr []],
             model = None\<rparr>)) (str ''customTheme'') = Some (JStr (str ''custom''))"
proof -
  let ?ctx = "Some \<lparr>form = Some [str ''customTheme'' \<mapsto> JStr (str ''custom''),
                           str ''customThemeColor'' \<mapsto> JStr []],
             model = None\<rparr>"
  have h1: "get (formData_of ?ctx) (str ''customTheme'') = JStr (str ''custom'')"
    by (simp add: get_formData_Some get_upd str_literals_distinct)
  have h2: "truthy (JStr (str ''custom''))"
    by (simp add: str_literals_distinct)
  have h3: "JStr (str ''custom'') \<noteq> JStr (str ''default'')"
    by (simp add: str_literals_distinct)
  have h4: "\<not> (JStr (str ''custom'') = JStr (str ''custom'') \<and>
              truthy (get (formData_of ?ctx) (str ''customThemeColor'')))"
    by (simp add: get_formData_Some get_upd)
  show ?thesis by (rule set_theme_passes_through [OF h1 h2 h3 h4])
qed

text \<open>
  Claim C4. The payload never has a \<open>customThemeColor\<close> key, and every changed field other
  than \<open>customTheme\<close> and \<open>customThemeColor\<close> is in the payload with the value it had (and
  no such key is added).
\<close>

theorem customThemeColor_removed_rest_kept:
  assumes "k \<noteq> str ''customTheme''" and "k \<noteq> str ''customThemeColor''"
  shows "str ''customThemeColor'' \<notin> dom (options (transformCustomTheme data ctx)) \<and>
         options (transformCustomTheme data ctx) k = data k \<and>
         str ''customThemeColor'' \<notin> dom (options (transformCustomTheme_part_000 data ctx)) \<and>
         options (transformCustomTheme_part_000 data ctx) k = data k"
  using assms
  by (simp add: transformCustomTheme_def transformCustomTheme_part_000_def Let_def
      without_customThemeColor_def str_literals_distinct dom_def)

theorem customThemeColor_removed_rest_kept_witness:
  "str ''customThemeColor'' \<notin> dom (options (transformCustomTheme
      [str ''language'' \<mapsto> JStr (str ''en''), str ''customThemeColor'' \<mapsto> JStr (str ''#AABBCC'')]
      None)) \<and>
   options (transformCustomTheme
      [str ''language'' \<mapsto> JStr (str ''en''), str ''customThemeColor'' \<mapsto> JStr (str ''#AABBCC'')]
      None) (str ''language'') = Some (JStr (str ''en'')) \<and>
   str ''customThemeColor'' \<notin> dom (options (transformCustomTheme_part_000
      [str ''language'' \<mapsto> JStr (str ''en''), str ''customThemeColor'' \<mapsto> JStr (str ''#AABBCC'')]
      None)) \<and>
   options (transformCustomTheme_part_000
      [str ''language'' \<mapsto> JStr (str ''en''), str ''customThemeColor'' \<mapsto> JStr (str ''#AABBCC'')]
      None) (str ''language'') = Some (JStr (str ''en''))"
proof -
  have h1: "str ''language'' \<noteq> str ''customTheme''" by (simp add: str_def)
  have h2: "str ''language'' \<noteq> str ''customThemeColor''" by (simp add: str_def)
  show ?thesis
    using customThemeColor_removed_rest_kept [OF h1 h2,
      of "[str ''language'' \<mapsto> JStr (str ''en''),
           str ''customThemeColor'' \<mapsto> JStr (str ''#AABBCC'')]" None] h2
    by simp
qed

text \<open>
  Claim C9. The three-branch transform of \<^verbatim>\<open>accountPreferences.tsx\<close> and the two-branch
  transform of the second source file return equal payloads on every input.
\<close>

theorem transformCustomTheme_versions_equal:
  "transformCustomTheme data ctx = transformCustomTheme_part_000 data ctx"
  by (cases "get (formData_of ctx) (str ''customTheme'')")
     (auto simp add: transformCustomTheme_def transformCustomTheme_part_000_def Let_def
      str_literals_distinct)

section \<open>Validation and visibility of \<open>customThemeColor\<close>\<close>

lemma opt_get_upd: "opt_get (Some (f(k \<mapsto> v))) k' = (if k' = k then v else opt_get (Some f) k')"
  by (simp add: opt_get_def get_def)

lemma opt_get_empty: "opt_get (Some Map.empty) k = JUndefined"
  by (simp add: opt_get_def get_def)

lemma validate_custom_string:
  assumes "opt_get frm (str ''customTheme'') = JStr (str ''custom'')"
    and "opt_get frm (str ''customThemeColor'') = JStr c"
  shows "validate frm =
           (if trim c = [] then Inr [missing_color_error]
            else if hex_color_pattern (trim c) then Inr [] else Inr [invalid_color_error])"
proof (cases "c = []")
  case True
  then show ?thesis using assms by (simp add: validate_def trim_def)
next
  case False
  then show ?thesis using assms by (simp add: validate_def hex_color_re_test)
qed

lemma validate_part_000_custom_string:
  assumes "opt_get frm (str ''customTheme'') = JStr (str ''custom'')"
    and "opt_get frm (str ''customThemeColor'') = JStr c"
  shows "validate_part_000 frm =
           (if trim c = [] then Inr [missing_color_error]
            else if hex_color_pattern (trim c) then Inr [] else Inr [invalid_color_error])"
proof (cases "c = []")
  case True
  then show ?thesis using assms by (simp add: validate_part_000_def trim_def)
next
  case False
  then show ?thesis using assms by (simp add: validate_part_000_def hex_color_re_test)
qed

lemma str_Nil_iff: "str s = [] \<longleftrightarrow> s = []"
  by (simp add: str_def)

lemma trim_examples:
  "trim (str ''#AABBCC'') = str ''#AABBCC''"
  "trim (str '' #AABBCC '') = str ''#AABBCC''"
  "trim (str ''zz00zz'') = str ''zz00zz''"
  "trim (str '' '') = []"
  "trim (str ''  '') = []"
  by (simp_all add: trim_def str_def is_whitespace_def)

lemma hex_color_pattern_examples:
  "hex_color_pattern (str ''#AABBCC'')"
  "\<not> hex_color_pattern (str '' #AABBCC '')"
  "\<not> hex_color_pattern (str ''zz00zz'')"
  by (simp_all add: str_def is_hex_digit_def)

lemma whitespace_examples:
  "\<not> list_all is_whitespace (str '' #AABBCC '')"
  "\<not> list_all is_whitespace (str ''zz00zz'')"
  "list_all is_whitespace (str ''  '')"
  by (simp_all add: str_def is_whitespace_def)

lemma validate_example:
  "validate (Some [str ''customTheme'' \<mapsto> JStr (str ''custom''),
                         str ''customThemeColor'' \<mapsto> JStr (str c)]) =
           (if trim (str c) = [] then Inr [missing_color_error]
            else if hex_color_pattern (trim (str c)) then Inr [] else Inr [invalid_color_error])"
  by (rule validate_custom_string; simp add: opt_get_upd str_literals_distinct)

text \<open>
  Claim C5, as stated, fails on a valid colour with whitespace around it: the string
  \<open>' #AABBCC '\<close> is non-empty, not whitespace-only and is not itself a \<open>#\<close> followed by six
  hexadecimal digits, yet \<open>validate\<close> returns no error, since it tests the trimmed string.
\<close>

theorem padded_hex_color_counterexample:
  "str '' #AABBCC '' \<noteq> [] \<and>
   \<not> list_all is_whitespace (str '' #AABBCC '') \<and>
   \<not> hex_color_pattern (str '' #AABBCC '') \<and>
   validate (Some [str ''customTheme'' \<mapsto> JStr (str ''custom''),
                   str ''customThemeColor'' \<mapsto> JStr (str '' #AABBCC '')])
     \<noteq> Inr [(str ''customThemeColor'', str ''Please enter a valid hex color (e.g., #ff5722)'')] \<and>
   validate_part_000 (Some [str ''customTheme'' \<mapsto> JStr (str ''custom''),
                   str ''customThemeColor'' \<mapsto> JStr (str '' #AABBCC '')])
     \<noteq> Inr [(str ''customThemeColor'', str ''Please enter a valid hex color (e.g., #ff5722)'')]"
proof -
  let ?frm = "Some [str ''customTheme'' \<mapsto> JStr (str ''custom''),
                    str ''customThemeColor'' \<mapsto> JStr (str '' #AABBCC '')]"
  have h1: "opt_get ?frm (str ''customTheme'') = JStr (str ''custom'')"
    by (simp add: opt_get_upd str_literals_distinct)
  have h2: "opt_get ?frm (str ''customThemeColor'') = JStr (str '' #AABBCC '')"
    by (simp add: opt_get_upd)
  have "validate ?frm = Inr []"
    by (simp add: validate_custom_string [OF h1 h2] trim_examples str_Nil_iff
        hex_color_pattern_examples)
  moreover have "validate_part_000 ?frm = Inr []"
    by (simp add: validate_part_000_custom_string [OF h1 h2] trim_examples str_Nil_iff
        hex_color_pattern_examples)
  moreover have "str '' #AABBCC '' \<noteq> []" by (simp add: str_Nil_iff)
  ultimately show ?thesis
    by (simp add: whitespace_examples hex_color_pattern_examples)
qed

text \<open>
  Claim C5, amended. With \<open>customTheme = 'custom'\<close> and \<open>customThemeColor\<close> a non-empty,
  non-whitespace-only string whose trimmed value is not a \<open>#\<close> followed by exactly six
  hexadecimal digits, \<open>validate\<close> returns exactly the one pair \<open>('customThemeColor',
  'Please enter a valid hex color (e.g., #ff5722)')\<close>; for \<open>'#AABBCC'\<close> it returns no errors.
\<close>

theorem invalid_hex_color_rejected:
  assumes "opt_get frm (str ''customTheme'') = JStr (str ''custom'')"
    and "opt_get frm (str ''customThemeColor'') = JStr c"
    and "\<not> list_all is_whitespace c"
    and "\<not> hex_color_pattern (trim c)"
  shows "validate frm =
           Inr [(str ''customThemeColor'', str ''Please enter a valid hex color (e.g., #ff5722)'')] \<and>
         validate_part_000 frm =
           Inr [(str ''customThemeColor'', str ''Please enter a valid hex color (e.g., #ff5722)'')] \<and>
         validate (Some [str ''customTheme'' \<mapsto> JStr (str ''custom''),
                         str ''customThemeColor'' \<mapsto> JStr (str ''#AABBCC'')]) = Inr [] \<and>
         validate_part_000 (Some [str ''customTheme'' \<mapsto> JStr (str ''custom''),
                         str ''customThemeColor'' \<mapsto> JStr (str ''#AABBCC'')]) = Inr []"
proof -
  from assms(3) have t: "trim c \<noteq> []" by (simp add: trim_Nil_iff)
  let ?ok = "Some [str ''customTheme'' \<mapsto> JStr (str ''custom''),
                   str ''customThemeColor'' \<mapsto> JStr (str ''#AABBCC'')]"
  have h1: "opt_get ?ok (str ''customTheme'') = JStr (str ''custom'')"
    by (simp add: opt_get_upd str_literals_distinct)
  have h2: "opt_get ?ok (str ''customThemeColor'') = JStr (str ''#AABBCC'')"
    by (simp add: opt_get_upd)
  have a: "validate frm = Inr [invalid_color_error]"
    using t assms(4) by (simp add: validate_custom_string [OF assms(1,2)])
  have b: "validate_part_000 frm = Inr [invalid_color_error]"
    using t assms(4) by (simp add: validate_part_000_custom_string [OF assms(1,2)])
  have c: "validate ?ok = Inr []"
    by (simp add: validate_custom_string [OF h1 h2] trim_examples str_Nil_iff
        hex_color_pattern_examples)
  have d: "validate_part_000 ?ok = Inr []"
    by (simp add: validate_part_000_custom_string [OF h1 h2] trim_examples str_Nil_iff
        hex_color_pattern_examples)
  from a b c d show ?thesis by (simp add: invalid_color_error_def)
qed

theorem invalid_hex_color_rejected_witness:
  "validate (Some [str ''customTheme'' \<mapsto> JStr (str ''custom''),
                   str ''customThemeColor'' \<mapsto> JStr (str ''zz00zz'')]) =
     Inr [(str ''customThemeColor'', str ''Please enter a valid hex color (e.g., #ff5722)'')] \<and>
   validate_part_000 (Some [str ''customTheme'' \<mapsto> JStr (str ''custom''),
                   str ''customThemeColor'' \<mapsto> JStr (str ''zz00zz'')]) =
     Inr [(str ''customThemeColor'', str ''Please enter a valid hex color (e.g., #ff5722)'')]"
proof -
  let ?frm = "Some [str ''customTheme'' \<mapsto> JStr (str ''custom''),
                    str ''customThemeColor'' \<mapsto> JStr (str ''zz00zz'')]"
  have h1: "opt_get ?frm (str ''customTheme'') = JStr (str ''custom'')"
    by (simp add: opt_get_upd str_literals_distinct)
  have h2: "opt_get ?frm (str ''customThemeColor'') = JStr (str ''zz00zz'')"
    by (simp add: opt_get_upd)
  have h3: "\<not> list_all is_whitespace (str ''zz00zz'')"
    by (simp add: whitespace_examples)
  have h4: "\<not> hex_color_pattern (trim (str ''zz00zz''))"
    by (simp add: trim_examples hex_color_pattern_examples)
  show ?thesis using invalid_hex_color_rejected [OF h1 h2 h3 h4] by simp
qed

text \<open>
  Claim C6. With \<open>customTheme = 'custom'\<close> and \<open>customThemeColor\<close> absent, empty or
  whitespace-only, \<open>validate\<close> returns exactly the one pair \<open>('customThemeColor', 'Please
  provide a hex color when selecting custom theme')\<close>.
\<close>

theorem missing_color_rejected:
  assumes "opt_get frm (str ''customTheme'') = JStr (str ''custom'')"
    and "opt_get frm (str ''customThemeColor'') = JUndefined \<or>
         opt_get frm (str ''customThemeColor'') = JStr [] \<or>
         (\<exists>c. opt_get frm (str ''customThemeColor'') = JStr c \<and> list_all is_whitespace c)"
  shows "validate frm =
           Inr [(str ''customThemeColor'',
                 str ''Please provide a hex color when selecting custom theme'')] \<and>
         validate_part_000 frm =
           Inr [(str ''customThemeColor'',
                 str ''Please provide a hex color when selecting custom theme'')]"
proof -
  consider (undef) "opt_get frm (str ''customThemeColor'') = JUndefined"
    | (str) c where "opt_get frm (str ''customThemeColor'') = JStr c" "list_all is_whitespace c"
    using assms(2) by auto
  then have "validate frm = Inr [missing_color_error] \<and>
             validate_part_000 frm = Inr [missing_color_error]"
  proof cases
    case undef
    with assms(1) show ?thesis by (simp add: validate_def validate_part_000_def)
  next
    case str
    from str(2) have "trim c = []" by (simp add: trim_Nil_iff)
    then show ?thesis
      by (simp add: validate_custom_string [OF assms(1) str(1)]
          validate_part_000_custom_string [OF assms(1) str(1)])
  qed
  then show ?thesis by (simp add: missing_color_error_def)
qed

theorem missing_color_rejected_witness:
  "validate (Some [str ''customTheme'' \<mapsto> JStr (str ''custom''),
                   str ''customThemeColor'' \<mapsto> JStr (str ''  '')]) =
     Inr [(str ''customThemeColor'',
           str ''Please provide a hex color when selecting custom theme'')] \<and>
   validate_part_000 (Some [str ''customTheme'' \<mapsto> JStr (str ''custom''),
                   str ''customThemeColor'' \<mapsto> JStr (str ''  '')]) =
     Inr [(str ''customThemeColor'',
           str ''Please provide a hex color when selecting custom theme'')] \<and>
   validate (Some [str ''customTheme'' \<mapsto> JStr (str ''custom'')]) =
     Inr [(str ''customThemeColor'',
           str ''Please provide a hex color when selecting custom theme'')]"
proof -
  let ?frm = "Some [str ''customTheme'' \<mapsto> JStr (str ''custom''),
                    str ''customThemeColor'' \<mapsto> JStr (str ''  '')]"
  let ?abs = "Some [str ''customTheme'' \<mapsto> JStr (str ''custom'')]"
  have h1: "opt_get ?frm (str ''customTheme'') = JStr (str ''custom'')"
    by (simp add: opt_get_upd str_literals_distinct)
  have h2: "opt_get ?frm (str ''customThemeColor'') = JUndefined \<or>
            opt_get ?frm (str ''customThemeColor'') = JStr [] \<or>
            (\<exists>c. opt_get ?frm (str ''customThemeColor'') = JStr c \<and> list_all is_whitespace c)"
    by (simp add: opt_get_upd whitespace_examples)
  have g1: "opt_get ?abs (str ''customTheme'') = JStr (str ''custom'')"
    by (simp add: opt_get_upd)
  have g2: "opt_get ?abs (str ''customThemeColor'') = JUndefined \<or>
            opt_get ?abs (str ''customThemeColor'') = JStr [] \<or>
            (\<exists>c. opt_get ?abs (str ''customThemeColor'') = JStr c \<and> list_all is_whitespace c)"
    by (simp add: opt_get_upd opt_get_empty str_literals_distinct)
  show ?thesis
    using missing_color_rejected [OF h1 h2] missing_color_rejected [OF g1 g2] by simp
qed

text \<open>
  Claim C7. When \<open>customTheme\<close> is not \<open>'custom'\<close> (unset included), \<open>validate\<close> returns the
  empty sequence, whatever \<open>customThemeColor\<close> is.
\<close>

theorem other_theme_always_valid:
  assumes "opt_get frm (str ''customTheme'') \<noteq> JStr (str ''custom'')"
  shows "validate frm = Inr [] \<and> validate_part_000 frm = Inr []"
  using assms by (simp add: validate_def validate_part_000_def)

theorem other_theme_always_valid_witness:
  "validate (Some [str ''customTheme'' \<mapsto> JStr (str ''default''),
                   str ''customThemeColor'' \<mapsto> JStr (str ''zz00zz'')]) = Inr [] \<and>
   validate_part_000 (Some [str ''customTheme'' \<mapsto> JStr (str ''default''),
                   str ''customThemeColor'' \<mapsto> JStr (str ''zz00zz'')]) = Inr []"
proof -
  let ?frm = "Some [str ''customTheme'' \<mapsto> JStr (str ''default''),
                    str ''customThemeColor'' \<mapsto> JStr (str ''zz00zz'')]"
  have h: "opt_get ?frm (str ''customTheme'') \<noteq> JStr (str ''custom'')"
    by (simp add: opt_get_upd str_literals_distinct)
  show ?thesis by (rule other_theme_always_valid [OF h])
qed

text \<open>
  Claim C8. The field is visible exactly when the model is there and its current value
  of \<open>customTheme\<close> is the string \<open>'custom'\<close>; it is hidden when the model is absent or
  \<open>customTheme\<close> is unset.
\<close>

theorem visible_iff_custom:
  "(visible m \<longleftrightarrow>
      (\<exists>fm. m = Some fm \<and> getValue fm (str ''customTheme'') = JStr (str ''custom''))) \<and>
   \<not> visible None \<and>
   \<not> visible (Some \<lparr>getValue = \<lambda>k. JUndefined\<rparr>)"
  by (cases m) (simp_all add: visible_def)

text \<open>
  Claim C10. The transform neither validates nor trims: with \<open>customTheme = 'custom'\<close> and
  any non-empty string as \<open>customThemeColor\<close>, the payload's \<open>customTheme\<close> is that raw
  string. That holds for \<open>' '\<close> and \<open>'zz00zz'\<close>, which \<open>validate\<close> rejects, and for
  \<open>' #AABBCC '\<close>, which \<open>validate\<close> accepts after trimming.
\<close>

theorem transform_sends_raw_color:
  assumes "opt_get (Some f) (str ''customTheme'') = JStr (str ''custom'')"
    and "opt_get (Some f) (str ''customThemeColor'') = JStr c"
    and "c \<noteq> []"
  shows "options (transformCustomTheme data (Some \<lparr>form = Some f, model = m\<rparr>))
           (str ''customTheme'') = Some (JStr c) \<and>
         options (transformCustomTheme_part_000 data (Some \<lparr>form = Some f, model = m\<rparr>))
           (str ''customTheme'') = Some (JStr c) \<and>
         validate (Some [str ''customTheme'' \<mapsto> JStr (str ''custom''),
                         str ''customThemeColor'' \<mapsto> JStr (str '' '')]) =
           Inr [(str ''customThemeColor'',
                 str ''Please provide a hex color when selecting custom theme'')] \<and>
         validate (Some [str ''customTheme'' \<mapsto> JStr (str ''custom''),
                         str ''customThemeColor'' \<mapsto> JStr (str ''zz00zz'')]) =
           Inr [(str ''customThemeColor'', str ''Please enter a valid hex color (e.g., #ff5722)'')] \<and>
         validate (Some [str ''customTheme'' \<mapsto> JStr (str ''custom''),
                         str ''customThemeColor'' \<mapsto> JStr (str '' #AABBCC '')]) = Inr []"
proof -
  have a: "options (transformCustomTheme data (Some \<lparr>form = Some f, model = m\<rparr>))
             (str ''customTheme'') = Some (JStr c)"
    using assms
    by (simp add: transformCustomTheme_def get_formData_Some opt_get_def)
  have b: "options (transformCustomTheme_part_000 data (Some \<lparr>form = Some f, model = m\<rparr>))
             (str ''customTheme'') = Some (JStr c)"
    using assms
    by (simp add: transformCustomTheme_part_000_def get_formData_Some opt_get_def)
  have v1: "validate (Some [str ''customTheme'' \<mapsto> JStr (str ''custom''),
                         str ''customThemeColor'' \<mapsto> JStr (str '' '')]) =
              Inr [missing_color_error]"
    by (simp add: validate_example trim_examples)
  have v2: "validate (Some [str ''customTheme'' \<mapsto> JStr (str ''custom''),
                         str ''customThemeColor'' \<mapsto> JStr (str ''zz00zz'')]) =
              Inr [invalid_color_error]"
    by (simp add: validate_example trim_examples str_Nil_iff hex_color_pattern_examples)
  have v3: "validate (Some [str ''customTheme'' \<mapsto> JStr (str ''custom''),
                         str ''customThemeColor'' \<mapsto> JStr (str '' #AABBCC '')]) = Inr []"
    by (simp add: validate_example trim_examples str_Nil_iff hex_color_pattern_examples)
  from a b v1 v2 v3 show ?thesis
    by (simp add: missing_color_error_def invalid_color_error_def)
qed

theorem transform_sends_raw_color_witness:
  "options (transformCustomTheme [str ''customThemeColor'' \<mapsto> JStr (str '' #AABBCC '')]
      (Some \<lparr>form = Some [str ''customTheme'' \<mapsto> JStr (str ''custom''),
                           str ''customThemeColor'' \<mapsto> JStr (str '' #AABBCC '')],
             model = None\<rparr>)) (str ''customTheme'') = Some (JStr (str '' #AABBCC '')) \<and>
   options (transformCustomTheme_part_000 [str ''customThemeColor'' \<mapsto> JStr (str '' #AABBCC '')]
      (Some \<lparr>form = Some [str ''customTheme'' \<mapsto> JStr (str ''custom''),
                           str ''customThemeColor'' \<mapsto> JStr (str '' #AABBCC '')],
             model = None\<rparr>)) (str ''customTheme'') = Some (JStr (str '' #AABBCC '')) \<and>
   str '' #AABBCC '' \<noteq> trim (str '' #AABBCC '')"
proof -
  let ?f = "[str ''customTheme'' \<mapsto> JStr (str ''custom''),
             str ''customThemeColor'' \<mapsto> JStr (str '' #AABBCC '')]"
  have h1: "opt_get (Some ?f) (str ''customTheme'') = JStr (str ''custom'')"
    by (simp add: opt_get_upd str_literals_distinct)
  have h2: "opt_get (Some ?f) (str ''customThemeColor'') = JStr (str '' #AABBCC '')"
    by (simp add: opt_get_upd)
  have h3: "str '' #AABBCC '' \<noteq> []"
    by (simp add: str_Nil_iff)
  have n: "str '' #AABBCC '' \<noteq> trim (str '' #AABBCC '')"
    by (simp only: trim_examples) (simp add: str_def)
  show ?thesis
    using transform_sends_raw_color [OF h1 h2 h3,
      of "[str ''customThemeColor'' \<mapsto> JStr (str '' #AABBCC '')]" None] n
    by simp
qed

end
